theory Spec2Isabelle
  imports Main "HOL-Library.List_Lexorder" "HOL-Library.Char_ord"
begin

section \<open>ssh-manager: the connection cache of \<^verbatim>\<open>main.py\<close>\<close>

text \<open>
  A shallow embedding of \<^verbatim>\<open>SSHConnectionManager\<close>: \<^verbatim>\<open>load_config\<close>, \<^verbatim>\<open>refresh\<close> and
  \<^verbatim>\<open>list_connections\<close>. The program is dynamically typed glue around JSON, so the
  embedding has one type of values (\<open>json\<close>), the Python operations the source applies
  to them with the exception each one raises on a value of the wrong type, and an
  explicit world: the manager's attribute \<^verbatim>\<open>self.connections\<close>, the content of the config
  file, the answer of the HTTP request, the lines typed at the prompts, and the trace of
  what is printed and executed.

  What the Python library does and the embedding does not compute is a parameter of
  the definitions: \<open>fmt\<close>, the text an f-string puts for a value that is no string, and
  \<open>low\<close>, \<^verbatim>\<open>str.lower\<close> on a string that is not empty. A string is a list of characters
  with the code points 0 to 255; text beyond Latin-1 is outside the embedding.
\<close>

subsection \<open>JSON documents and Python values\<close>

text \<open>
  A \<open>json\<close> term is used in two roles. As the syntax tree of a JSON text (the file, the
  response body) an object is the list of its members in the order of the text, and a key
  may occur twice. As a Python value (what \<^verbatim>\<open>json.load\<close> returns) a \<^verbatim>\<open>dict\<close> is an
  insertion-ordered list of items with distinct keys.

  \<open>JNum n\<close> is the integer \<open>n\<close> written in decimal as Python prints it (the one other
  integer literal of JSON, \<^verbatim>\<open>-0\<close>, is outside the embedding). A number with a fraction or
  an exponent is \<open>JFloat l c\<close>: \<open>l\<close> is the literal of the text and \<open>c\<close> the text
  \<^verbatim>\<open>json.dump\<close> writes for the float \<^verbatim>\<open>json.load\<close> reads from \<open>l\<close> (the \<^verbatim>\<open>repr\<close> of the
  float, or \<^verbatim>\<open>Infinity\<close>), as in \<open>JFloat ''1.50'' ''1.5''\<close>. The Python float itself is
  \<open>JFloat c c\<close>.
\<close>

datatype json =
    JNull
  | JBool bool
  | JNum int
  | JFloat string string
  | JStr string
  | JArr "json list"
  | JObj "(string \<times> json) list"

type_synonym 'v dict = "(string \<times> 'v) list"

text \<open>\<^verbatim>\<open>d[k] = v\<close>: an existing key keeps its position and takes the new value; a new
  key goes to the end.\<close>

definition dict_set :: "'v dict \<Rightarrow> string \<Rightarrow> 'v \<Rightarrow> 'v dict" where
  "dict_set d k v =
     (if k \<in> set (map fst d)
      then map (\<lambda>m. if fst m = k then (k, v) else m) d
      else d @ [(k, v)])"

text \<open>\<^verbatim>\<open>dict(pairs)\<close>: the pairs are inserted one after the other.\<close>

definition dict_of_pairs :: "'v dict \<Rightarrow> 'v dict" where
  "dict_of_pairs ms = foldl (\<lambda>d m. dict_set d (fst m) (snd m)) [] ms"

text \<open>A text is a JSON document that the decoder walks through (\<open>JsonText\<close>, with its
  syntax tree), or a text that is not JSON for the decoder, which raises
  \<^verbatim>\<open>JSONDecodeError\<close>, a \<^verbatim>\<open>ValueError\<close> (\<open>Malformed\<close>), or a JSON text nested deeper than
  the recursion limit of the interpreter, where the decoder raises \<^verbatim>\<open>RecursionError\<close>
  (\<open>TooDeep\<close>).\<close>

datatype document = Malformed | TooDeep | JsonText json

datatype py_error =
    AttributeError
  | KeyError
  | TypeError
  | IndexError
  | ValueError
  | EOFError
  | KeyboardInterrupt
  | RecursionError

definition and_then :: "py_error + 'a \<Rightarrow> ('a \<Rightarrow> py_error + 'b) \<Rightarrow> py_error + 'b" where
  "and_then m f = (case m of Inl e \<Rightarrow> Inl e | Inr v \<Rightarrow> f v)"

text \<open>The results of a sequence of steps, up to the first exception.\<close>

fun collect :: "(py_error + 'a) list \<Rightarrow> py_error + 'a list" where
  "collect [] = Inr []"
| "collect (r # rs) = and_then r (\<lambda>v. and_then (collect rs) (\<lambda>vs. Inr (v # vs)))"

text \<open>Python converts between \<^verbatim>\<open>int\<close> and \<^verbatim>\<open>str\<close> up to 4300 decimal digits
  (\<^verbatim>\<open>sys.int_info.default_max_str_digits\<close>) and raises \<^verbatim>\<open>ValueError\<close> beyond.\<close>

definition max_str_digits :: nat where
  "max_str_digits = 4300"

definition too_long :: "int \<Rightarrow> bool" where
  "too_long n = (10 ^ max_str_digits \<le> \<bar>n\<bar>)"

text \<open>\<^verbatim>\<open>json.load\<close> on a JSON text, and \<^verbatim>\<open>response.json()\<close>: an integer literal goes through
  \<^verbatim>\<open>int\<close>, any other number becomes a float, and the decoder collects the members of an
  object and builds the \<^verbatim>\<open>dict\<close> from them.\<close>

fun json_load :: "json \<Rightarrow> py_error + json" where
  "json_load (JNum n) = (if too_long n then Inl ValueError else Inr (JNum n))"
| "json_load (JFloat l c) = Inr (JFloat c c)"
| "json_load (JArr xs) = and_then (collect (map json_load xs)) (\<lambda>vs. Inr (JArr vs))"
| "json_load (JObj ms) =
     and_then (collect (map (\<lambda>m. and_then (json_load (snd m)) (\<lambda>v. Inr (fst m, v))) ms))
       (\<lambda>ps. Inr (JObj (dict_of_pairs ps)))"
| "json_load v = Inr v"

text \<open>The documents that are Python values, written by \<^verbatim>\<open>json.dump\<close>: no object repeats a
  key, every float is written as Python prints it, every integer is one Python prints.\<close>

fun py_value :: "json \<Rightarrow> bool" where
  "py_value (JNum n) = (\<not> too_long n)"
| "py_value (JFloat l c) = (l = c)"
| "py_value (JArr xs) = list_all py_value xs"
| "py_value (JObj ms) = (distinct (map fst ms) \<and> list_all (\<lambda>m. py_value (snd m)) ms)"
| "py_value v = True"



subsection \<open>The Python operations of the source\<close>

text \<open>\<^verbatim>\<open>v.get(k, default)\<close>: only a \<^verbatim>\<open>dict\<close> has the method.\<close>

fun py_get :: "json \<Rightarrow> string \<Rightarrow> json \<Rightarrow> py_error + json" where
  "py_get (JObj d) k dflt = Inr (case map_of d k of Some v \<Rightarrow> v | None \<Rightarrow> dflt)"
| "py_get _ k dflt = Inl AttributeError"

text \<open>The truth value of \<^verbatim>\<open>v\<close> in \<^verbatim>\<open>if v\<close>.\<close>

fun truthy :: "json \<Rightarrow> bool" where
  "truthy JNull = False"
| "truthy (JBool b) = b"
| "truthy (JNum n) = (n \<noteq> 0)"
| "truthy (JFloat l c) = (c \<noteq> ''0.0'' \<and> c \<noteq> ''-0.0'')"
| "truthy (JStr s) = (s \<noteq> [])"
| "truthy (JArr xs) = (xs \<noteq> [])"
| "truthy (JObj d) = (d \<noteq> [])"

text \<open>\<^verbatim>\<open>v[0]\<close>: the first element of a list, the first character of a string; a \<^verbatim>\<open>dict\<close>
  decoded from JSON has string keys only, so the key \<^verbatim>\<open>0\<close> is missing.\<close>

fun py_first :: "json \<Rightarrow> py_error + json" where
  "py_first (JArr (x # xs)) = Inr x"
| "py_first (JArr []) = Inl IndexError"
| "py_first (JStr (c # cs)) = Inr (JStr [c])"
| "py_first (JStr []) = Inl IndexError"
| "py_first (JObj d) = Inl KeyError"
| "py_first _ = Inl TypeError"

text \<open>\<^verbatim>\<open>v['k']\<close> with a string key.\<close>

fun py_item :: "json \<Rightarrow> string \<Rightarrow> py_error + json" where
  "py_item (JObj d) k = (case map_of d k of Some v \<Rightarrow> Inr v | None \<Rightarrow> Inl KeyError)"
| "py_item _ k = Inl TypeError"

text \<open>\<^verbatim>\<open>s.lower()\<close> on a string: the empty string stays empty, and on any other string
  the result is what the parameter \<open>low\<close> gives.\<close>

definition lower :: "(string \<Rightarrow> string) \<Rightarrow> string \<Rightarrow> string" where
  "lower low s = (if s = [] then [] else low s)"

text \<open>\<^verbatim>\<open>v.lower()\<close>: only a string has the method.\<close>

fun py_lower :: "(string \<Rightarrow> string) \<Rightarrow> json \<Rightarrow> py_error + string" where
  "py_lower low (JStr s) = Inr (lower low s)"
| "py_lower low _ = Inl AttributeError"

text \<open>\<^verbatim>\<open>for page in v\<close>: a list gives its elements, a \<^verbatim>\<open>dict\<close> its keys, a string its
  characters; nothing else is iterable.\<close>

fun py_iter :: "json \<Rightarrow> py_error + json list" where
  "py_iter (JArr xs) = Inr xs"
| "py_iter (JObj d) = Inr (map (\<lambda>m. JStr (fst m)) d)"
| "py_iter (JStr s) = Inr (map (\<lambda>c. JStr [c]) s)"
| "py_iter _ = Inl TypeError"

text \<open>\<^verbatim>\<open>f"{v}"\<close>: a string is inserted as it is. How Python prints any other value
  (\<^verbatim>\<open>None\<close>, \<^verbatim>\<open>True\<close>, a number, the \<^verbatim>\<open>repr\<close> of a list) is what the parameter \<open>fmt\<close>
  gives.\<close>

definition format_value :: "(json \<Rightarrow> string) \<Rightarrow> json \<Rightarrow> string" where
  "format_value fmt v = (case v of JStr s \<Rightarrow> s | _ \<Rightarrow> fmt v)"

text \<open>\<^verbatim>\<open>xs[i]\<close> on a Python list: a negative index counts from the end.\<close>

definition py_list_index :: "'a list \<Rightarrow> int \<Rightarrow> py_error + 'a" where
  "py_list_index xs i =
     (let n = int (length xs) in
      if 0 \<le> i \<and> i < n then Inr (xs ! nat i)
      else if - n \<le> i \<and> i < 0 then Inr (xs ! nat (n + i))
      else Inl IndexError)"

text \<open>\<^verbatim>\<open>int(s)\<close> on a string: surrounding white space is dropped (tab, line feed, vertical
  tab, form feed, carriage return, space, and beyond ASCII the next-line and no-break
  space characters), then an optional sign, then decimal digits, where single underscores
  may separate digits. More than 4300 digits are refused. \<open>None\<close> is \<^verbatim>\<open>ValueError\<close>.\<close>

definition is_space :: "char \<Rightarrow> bool" where
  "is_space c = ((of_char c :: nat) \<in> {9, 10, 11, 12, 13, 32, 133, 160})"

definition is_digit :: "char \<Rightarrow> bool" where
  "is_digit c = (CHR ''0'' \<le> c \<and> c \<le> CHR ''9'')"

definition digit_value :: "char \<Rightarrow> int" where
  "digit_value c = int (of_char c) - 48"

fun int_digits :: "int \<Rightarrow> string \<Rightarrow> int option" where
  "int_digits acc [] = Some acc"
| "int_digits acc [c] = (if is_digit c then Some (10 * acc + digit_value c) else None)"
| "int_digits acc (c # d # cs) =
     (if is_digit c then int_digits (10 * acc + digit_value c) (d # cs)
      else if c = CHR ''_'' \<and> is_digit d then int_digits (10 * acc + digit_value d) cs
      else None)"

definition int_unsigned :: "string \<Rightarrow> int option" where
  "int_unsigned s =
     (case s of [] \<Rightarrow> None
      | c # cs \<Rightarrow>
          if is_digit c
          then (if max_str_digits < length (filter is_digit s) then None
                else int_digits (digit_value c) cs)
          else None)"

definition strip :: "string \<Rightarrow> string" where
  "strip s = rev (dropWhile is_space (rev (dropWhile is_space s)))"

definition py_int :: "string \<Rightarrow> int option" where
  "py_int s =
     (case strip s of
        [] \<Rightarrow> None
      | c # cs \<Rightarrow>
          if c = CHR ''-'' then map_option uminus (int_unsigned cs)
          else if c = CHR ''+'' then int_unsigned cs
          else int_unsigned (c # cs))"

subsection \<open>The world: manager, config file, terminal\<close>

text \<open>\<open>connections\<close> is \<^verbatim>\<open>self.connections\<close>; \<open>config_file\<close> is the content of the file at
  \<^verbatim>\<open>self.config_file\<close>, \<open>None\<close> when there is no such file.\<close>

record state =
  connections :: json
  config_file :: "document option"

type_synonym row = "nat \<times> json \<times> json \<times> string \<times> json"

datatype event =
    Print string
  | PrintTable "string list" "row list"
  | Prompt string
  | Shell string

text \<open>What the user does at a prompt of \<^verbatim>\<open>input\<close>: type a line, or press Ctrl+C. The
  end of the list is the end of standard input.\<close>

datatype keys = Line string | CtrlC

text \<open>The result of an operation: the state it leaves, what it printed and ran, and the
  exception that left it uncaught, if any.\<close>

record outcome =
  final :: state
  trace :: "event list"
  raised :: "py_error option"

definition Fore_RED :: string where "Fore_RED = CHR 0x1B # ''[31m''"
definition Fore_GREEN :: string where "Fore_GREEN = CHR 0x1B # ''[32m''"
definition Fore_YELLOW :: string where "Fore_YELLOW = CHR 0x1B # ''[33m''"
definition Fore_CYAN :: string where "Fore_CYAN = CHR 0x1B # ''[36m''"
definition Style_RESET_ALL :: string where "Style_RESET_ALL = CHR 0x1B # ''[0m''"

subsection \<open>\<^verbatim>\<open>load_config\<close> (lines 24-30)\<close>

text \<open>A file that is not JSON makes \<^verbatim>\<open>json.load\<close> raise \<^verbatim>\<open>JSONDecodeError\<close>, a
  \<^verbatim>\<open>ValueError\<close>; nothing catches what \<^verbatim>\<open>json.load\<close> raises.\<close>

definition load_config :: "state \<Rightarrow> py_error + state" where
  "load_config s =
     (case config_file s of
        Some (JsonText j) \<Rightarrow>
          (case json_load j of
             Inl e \<Rightarrow> Inl e
           | Inr v \<Rightarrow> Inr (s\<lparr>connections := v\<rparr>))
      | Some Malformed \<Rightarrow> Inl ValueError
      | Some TooDeep \<Rightarrow> Inl RecursionError
      | None \<Rightarrow> Inr (s\<lparr>connections := JObj []\<rparr>))"

subsection \<open>\<^verbatim>\<open>refresh\<close> (lines 32-99)\<close>

text \<open>Lines 68, 71 and 77 are the same expression on three properties:
  \<^verbatim>\<open>p[0].get('text', {}).get('content', '') if p else ''\<close>.\<close>

definition first_text_content :: "json \<Rightarrow> py_error + json" where
  "first_text_content p =
     (if truthy p
      then and_then (py_first p) (\<lambda>item.
           and_then (py_get item ''text'' (JObj [])) (\<lambda>t.
           py_get t ''content'' (JStr [])))
      else Inr (JStr []))"

text \<open>Line 74: \<^verbatim>\<open>type_property.get('name', '').lower() if type_property else ''\<close>.\<close>

definition select_name :: "(string \<Rightarrow> string) \<Rightarrow> json \<Rightarrow> py_error + string" where
  "select_name low p =
     (if truthy p
      then and_then (py_get p ''name'' (JStr [])) (py_lower low)
      else Inr [])"

text \<open>\<^verbatim>\<open>properties.get(name, {}).get(inner, default)\<close> (lines 67, 70, 73, 76).\<close>

definition property_of :: "json \<Rightarrow> string \<Rightarrow> string \<Rightarrow> json \<Rightarrow> py_error + json" where
  "property_of properties name inner dflt =
     and_then (py_get properties name (JObj [])) (\<lambda>p. py_get p inner dflt)"

text \<open>The body of the loop (lines 64-88) up to the assignment: the key and the
  connection entry of one page.\<close>

definition page_entry ::
  "(json \<Rightarrow> string) \<Rightarrow> (string \<Rightarrow> string) \<Rightarrow> json \<Rightarrow> py_error + (string \<times> json)" where
  "page_entry fmt low page =
     and_then (py_get page ''properties'' (JObj [])) (\<lambda>properties.
     and_then (property_of properties ''Project'' ''title'' (JArr [])) (\<lambda>project_property.
     and_then (first_text_content project_property) (\<lambda>project.
     and_then (property_of properties ''SSH'' ''rich_text'' (JArr [])) (\<lambda>ssh_property.
     and_then (first_text_content ssh_property) (\<lambda>ssh.
     and_then (property_of properties ''Type'' ''select'' (JObj [])) (\<lambda>type_property.
     and_then (select_name low type_property) (\<lambda>type'.
     and_then (property_of properties ''password'' ''rich_text'' (JArr [])) (\<lambda>password_property.
     and_then (first_text_content password_property) (\<lambda>password.
       Inr (format_value fmt project @ ''@'' @ type',
            JObj [(''type'', JStr type'),
                  (''project'', project),
                  (''ssh_command'', ssh),
                  (''password'', password)]))))))))))"

text \<open>The loop of lines 62-88, with \<^verbatim>\<open>connections[key] = ...\<close> as \<open>dict_set\<close>. An exception
  in the body leaves the loop and \<^verbatim>\<open>refresh\<close>.\<close>

fun build_connections ::
  "(json \<Rightarrow> string) \<Rightarrow> (string \<Rightarrow> string) \<Rightarrow> json dict \<Rightarrow> json list
     \<Rightarrow> py_error + json dict" where
  "build_connections fmt low conns [] = Inr conns"
| "build_connections fmt low conns (page # pages) =
     (case page_entry fmt low page of
        Inl e \<Rightarrow> Inl e
      | Inr (key, entry) \<Rightarrow> build_connections fmt low (dict_set conns key entry) pages)"

text \<open>Lines 57 and 62-88 on the decoded body: \<^verbatim>\<open>.get('results', [])\<close>, then the loop.\<close>

definition remote_connections ::
  "(json \<Rightarrow> string) \<Rightarrow> (string \<Rightarrow> string) \<Rightarrow> json \<Rightarrow> py_error + json dict" where
  "remote_connections fmt low body =
     and_then (py_get body ''results'' (JArr [])) (\<lambda>results.
     and_then (py_iter results) (build_connections fmt low []))"

text \<open>What \<^verbatim>\<open>requests.post\<close> gives: a \<^verbatim>\<open>RequestException\<close> (no connection, a timeout) with
  its text, or a response with its status code, the text \<^verbatim>\<open>raise_for_status\<close> would put
  in its \<^verbatim>\<open>HTTPError\<close>, and its body. \<^verbatim>\<open>Response.raise_for_status\<close> raises for the client
  and server errors, the status codes from 400 to 599.\<close>

datatype fetched = RequestFailed string | Response nat string document

definition raise_for_status :: "nat \<Rightarrow> bool" where
  "raise_for_status status = (400 \<le> status \<and> status < 600)"

text \<open>What opening the config file for writing and \<^verbatim>\<open>json.dump\<close> give: the file written,
  or an \<^verbatim>\<open>IOError\<close> or another exception with its text and with whatever is then at the
  path of the file (\<^verbatim>\<open>open(..., 'w')\<close> may already have emptied it).\<close>

datatype written =
    Written
  | IOErrorRaised string "document option"
  | OtherRaised string "document option"

text \<open>Lines 90-99.\<close>

definition write_config :: "written \<Rightarrow> json \<Rightarrow> state \<Rightarrow> outcome" where
  "write_config w conns s =
     (case w of
        Written \<Rightarrow>
          \<lparr>final = s\<lparr>connections := conns, config_file := Some (JsonText conns)\<rparr>,
           trace = [Print (Fore_GREEN @ ''Data updated successfully!'')],
           raised = None\<rparr>
      | IOErrorRaised msg left \<Rightarrow>
          \<lparr>final = s\<lparr>config_file := left\<rparr>,
           trace = [Print (Fore_RED @ ''Error: Failed to write to the configuration file. '' @ msg)],
           raised = None\<rparr>
      | OtherRaised msg left \<Rightarrow>
          \<lparr>final = s\<lparr>config_file := left\<rparr>,
           trace = [Print (Fore_RED @ ''Unexpected error: '' @ msg)],
           raised = None\<rparr>)"

definition decode_error :: "state \<Rightarrow> outcome" where
  "decode_error s =
     \<lparr>final = s,
      trace = [Print (Fore_RED @ ''Error: Failed to decode JSON response from Notion.'')],
      raised = None\<rparr>"

definition fetch_error :: "string \<Rightarrow> state \<Rightarrow> outcome" where
  "fetch_error msg s =
     \<lparr>final = s,
      trace = [Print (Fore_RED @ ''Error: Failed to fetch data from Notion. '' @ msg)],
      raised = None\<rparr>"

text \<open>Lines 48-99. The \<^verbatim>\<open>try\<close> of lines 56-60 catches the \<^verbatim>\<open>ValueError\<close> of the decoder;
  the \<^verbatim>\<open>AttributeError\<close> of \<^verbatim>\<open>.get\<close> on a body that is no \<^verbatim>\<open>dict\<close>, and every exception of
  the loop, leave \<^verbatim>\<open>refresh\<close>.\<close>

definition refresh ::
  "(json \<Rightarrow> string) \<Rightarrow> (string \<Rightarrow> string) \<Rightarrow> fetched \<Rightarrow> written \<Rightarrow> state \<Rightarrow> outcome" where
  "refresh fmt low f w s =
     (case f of
        RequestFailed msg \<Rightarrow> fetch_error msg s
      | Response status msg body \<Rightarrow>
          if raise_for_status status then fetch_error msg s
          else
            (case body of
               Malformed \<Rightarrow> decode_error s
             | TooDeep \<Rightarrow> \<lparr>final = s, trace = [], raised = Some RecursionError\<rparr>
             | JsonText j \<Rightarrow>
                 (case json_load j of
                    Inl e \<Rightarrow>
                      if e = ValueError then decode_error s
                      else \<lparr>final = s, trace = [], raised = Some e\<rparr>
                  | Inr decoded \<Rightarrow>
                      (case remote_connections fmt low decoded of
                         Inl e \<Rightarrow> \<lparr>final = s, trace = [], raised = Some e\<rparr>
                       | Inr conns \<Rightarrow> write_config w (JObj conns) s))))"

subsection \<open>\<^verbatim>\<open>list_connections\<close> (lines 101-134)\<close>

text \<open>The loop of lines 104-111: one row for each item, numbered from \<open>idx\<close>.\<close>

fun table_rows :: "(json \<Rightarrow> string) \<Rightarrow> nat \<Rightarrow> json dict \<Rightarrow> py_error + row list" where
  "table_rows fmt idx [] = Inr []"
| "table_rows fmt idx ((name, details) # items) =
     and_then (py_item details ''project'') (\<lambda>project.
     and_then (py_item details ''ssh_command'') (\<lambda>ssh_command.
     and_then (py_item details ''type'') (\<lambda>connection_type.
     and_then (py_item details ''password'') (\<lambda>password.
     and_then (table_rows fmt (Suc idx) items) (\<lambda>rows.
       Inr ((idx, project, connection_type,
             Fore_CYAN @ format_value fmt ssh_command @ Style_RESET_ALL, password) # rows))))))"

text \<open>\<^verbatim>\<open>self.connections.items()\<close>: only a \<^verbatim>\<open>dict\<close> has the method.\<close>

fun py_items :: "json \<Rightarrow> py_error + json dict" where
  "py_items (JObj d) = Inr d"
| "py_items _ = Inl AttributeError"

text \<open>\<^verbatim>\<open>os.system(v)\<close>: the shell runs a string; a string with a NUL character is refused
  with \<^verbatim>\<open>ValueError\<close>, a value that is no string with \<^verbatim>\<open>TypeError\<close>.\<close>

fun os_system :: "json \<Rightarrow> py_error + string" where
  "os_system (JStr cmd) = (if CHR 0x00 \<in> set cmd then Inl ValueError else Inr cmd)"
| "os_system _ = Inl TypeError"

definition select_prompt :: string where
  "select_prompt =
     ''Enter the '' @ Fore_CYAN @ ''number'' @ Style_RESET_ALL
       @ '' of the connection to run the SSH command: ''"

definition confirm_prompt :: "(json \<Rightarrow> string) \<Rightarrow> json \<Rightarrow> json \<Rightarrow> string" where
  "confirm_prompt fmt project type' =
     ''Are you sure you want to run the command for '' @ Fore_YELLOW
       @ format_value fmt project @ ''@'' @ format_value fmt type' @ Style_RESET_ALL
       @ ''? Press Enter to confirm or Ctrl+C to cancel: ''"

text \<open>Lines 124-128, after the confirmation was read.\<close>

definition run_confirmed :: "json \<Rightarrow> string \<Rightarrow> event list \<times> py_error option" where
  "run_confirmed connection confirm =
     (if confirm = []
      then
        (case and_then (py_item connection ''ssh_command'') os_system of
           Inl e \<Rightarrow> ([Print (Fore_GREEN @ ''Command executing...'' @ Style_RESET_ALL)], Some e)
         | Inr cmd \<Rightarrow>
             ([Print (Fore_GREEN @ ''Command executing...'' @ Style_RESET_ALL), Shell cmd], None))
      else ([Print (Fore_RED @ ''Command execution canceled.'')], None))"

text \<open>Line 123: the prompt is formatted, printed, and a line is read.\<close>

definition confirm_and_run ::
  "(json \<Rightarrow> string) \<Rightarrow> json \<Rightarrow> keys list \<Rightarrow> event list \<times> py_error option" where
  "confirm_and_run fmt connection inp =
     (case and_then (py_item connection ''project'') (\<lambda>project.
           and_then (py_item connection ''type'') (\<lambda>type'.
           Inr (confirm_prompt fmt project type'))) of
        Inl e \<Rightarrow> ([], Some e)
      | Inr prompt \<Rightarrow>
          (case inp of
             [] \<Rightarrow> ([Prompt prompt], Some EOFError)
           | CtrlC # _ \<Rightarrow> ([Prompt prompt], Some KeyboardInterrupt)
           | Line confirm # _ \<Rightarrow>
               (case run_confirmed connection confirm of
                  (evs, r) \<Rightarrow> (Prompt prompt # evs, r))))"

text \<open>The body of the \<^verbatim>\<open>try\<close> (lines 121-128): what it prints and runs, and the exception
  that leaves it, if any.\<close>

definition select_and_run ::
  "(json \<Rightarrow> string) \<Rightarrow> json dict \<Rightarrow> keys list \<Rightarrow> event list \<times> py_error option" where
  "select_and_run fmt items inp =
     (case inp of
        [] \<Rightarrow> ([Prompt select_prompt], Some EOFError)
      | CtrlC # _ \<Rightarrow> ([Prompt select_prompt], Some KeyboardInterrupt)
      | Line l # rest \<Rightarrow>
          (case py_int l of
             None \<Rightarrow> ([Prompt select_prompt], Some ValueError)
           | Some index \<Rightarrow>
               (case py_list_index (map snd items) (index - 1) of
                  Inl e \<Rightarrow> ([Prompt select_prompt], Some e)
                | Inr connection \<Rightarrow>
                    (case confirm_and_run fmt connection rest of
                       (evs, r) \<Rightarrow> (Prompt select_prompt # evs, r)))))"

text \<open>The \<^verbatim>\<open>except\<close> clauses of lines 129-132: \<^verbatim>\<open>IndexError\<close> and \<^verbatim>\<open>ValueError\<close>, then
  \<^verbatim>\<open>KeyboardInterrupt\<close>; any other exception goes on.\<close>

definition handle_selection :: "event list \<times> py_error option \<Rightarrow> event list \<times> py_error option" where
  "handle_selection r =
     (case r of
        (evs, Some IndexError) \<Rightarrow>
          (evs @ [Print (Fore_RED @ ''Invalid index. Please enter a valid number.'')], None)
      | (evs, Some ValueError) \<Rightarrow>
          (evs @ [Print (Fore_RED @ ''Invalid index. Please enter a valid number.'')], None)
      | (evs, Some KeyboardInterrupt) \<Rightarrow>
          (evs @ [Print (Fore_RED @ CHR 0x0A # ''Operation canceled...'' @ [CHR 0x0A])], None)
      | (evs, e) \<Rightarrow> (evs, e))"

definition table_headers :: "string list" where
  "table_headers = [''No'', ''Project'', ''Type'', ''SSH Command'', ''Password'']"

definition list_connections :: "(json \<Rightarrow> string) \<Rightarrow> state \<Rightarrow> keys list \<Rightarrow> outcome" where
  "list_connections fmt s inp =
     (if truthy (connections s)
      then
        (case and_then (py_items (connections s)) (\<lambda>items.
              and_then (table_rows fmt 1 items) (\<lambda>rows. Inr (items, rows))) of
           Inl e \<Rightarrow> \<lparr>final = s, trace = [], raised = Some e\<rparr>
         | Inr (items, rows) \<Rightarrow>
             (case handle_selection (select_and_run fmt items inp) of
                (evs, r) \<Rightarrow>
                  \<lparr>final = s,
                   trace = PrintTable table_headers rows # Print [] # evs,
                   raised = r\<rparr>))
      else
        \<lparr>final = s,
         trace = [Print (Fore_YELLOW @ ''No SSH connections available.'')],
         raised = None\<rparr>)"

subsection \<open>Notions of the specification\<close>

text \<open>The helper of the specification's design notes: follow a path of keys and first
  elements through a record and give up (\<open>None\<close>) where the structure is missing or
  empty; the field is then the empty string.\<close>

datatype step = Key string | First

fun lookup_path :: "step list \<Rightarrow> json \<Rightarrow> json option" where
  "lookup_path [] v = Some v"
| "lookup_path (Key k # p) (JObj d) =
     (case map_of d k of None \<Rightarrow> None | Some x \<Rightarrow> lookup_path p x)"
| "lookup_path (First # p) (JArr (x # xs)) = lookup_path p x"
| "lookup_path p v = None"

definition field_or_empty :: "step list \<Rightarrow> json \<Rightarrow> json" where
  "field_or_empty p v = (case lookup_path p v of None \<Rightarrow> JStr [] | Some x \<Rightarrow> x)"

definition project_path :: "step list" where
  "project_path =
     [Key ''properties'', Key ''Project'', Key ''title'', First, Key ''text'', Key ''content'']"

definition ssh_path :: "step list" where
  "ssh_path =
     [Key ''properties'', Key ''SSH'', Key ''rich_text'', First, Key ''text'', Key ''content'']"

definition password_path :: "step list" where
  "password_path =
     [Key ''properties'', Key ''password'', Key ''rich_text'', First, Key ''text'', Key ''content'']"

definition name_path :: "step list" where
  "name_path = [Key ''properties'', Key ''Type'', Key ''select'', Key ''name'']"

definition type_of_page :: "(string \<Rightarrow> string) \<Rightarrow> json \<Rightarrow> string" where
  "type_of_page low page =
     (case field_or_empty name_path page of JStr n \<Rightarrow> lower low n | _ \<Rightarrow> [])"

text \<open>The shape of a record on which the extraction can work. Where the code calls
  \<^verbatim>\<open>.get\<close> the value is an object. Where it tests the value first (\<^verbatim>\<open>if p\<close>), the value is
  empty in the sense of Python (\<^verbatim>\<open>null\<close>, \<^verbatim>\<open>false\<close>, zero, an empty string, array or
  object), or it is what the code then uses: for a title or rich text an array whose first
  element is an object with an object, if anything, as its text; for a select an object
  with a string, if anything, as its name.\<close>

definition is_object :: "json \<Rightarrow> bool" where
  "is_object v = (case v of JObj d \<Rightarrow> True | _ \<Rightarrow> False)"

definition member_shaped :: "string \<Rightarrow> (json \<Rightarrow> bool) \<Rightarrow> json \<Rightarrow> bool" where
  "member_shaped k P v =
     (case v of
        JObj d \<Rightarrow> (case map_of d k of None \<Rightarrow> True | Some x \<Rightarrow> P x)
      | _ \<Rightarrow> False)"

fun items_shaped :: "json \<Rightarrow> bool" where
  "items_shaped (JArr (x # xs)) = member_shaped ''text'' is_object x"
| "items_shaped v = (\<not> truthy v)"

fun select_shaped :: "json \<Rightarrow> bool" where
  "select_shaped (JObj d) =
     (case map_of d ''name'' of None \<Rightarrow> True | Some (JStr n) \<Rightarrow> True | Some _ \<Rightarrow> False)"
| "select_shaped v = (\<not> truthy v)"

definition properties_shaped :: "json \<Rightarrow> bool" where
  "properties_shaped ps =
     (member_shaped ''Project'' (member_shaped ''title'' items_shaped) ps
      \<and> member_shaped ''SSH'' (member_shaped ''rich_text'' items_shaped) ps
      \<and> member_shaped ''Type'' (member_shaped ''select'' select_shaped) ps
      \<and> member_shaped ''password'' (member_shaped ''rich_text'' items_shaped) ps)"

definition page_shaped :: "json \<Rightarrow> bool" where
  "page_shaped page = member_shaped ''properties'' properties_shaped page"

text \<open>The key and entry of every record of a response, in the order of the response.\<close>

definition page_entries ::
  "(json \<Rightarrow> string) \<Rightarrow> (string \<Rightarrow> string) \<Rightarrow> json list \<Rightarrow> py_error + (string \<times> json) list" where
  "page_entries fmt low pages = collect (map (page_entry fmt low) pages)"


text \<open>\<^verbatim>\<open>load()\<close> followed by \<^verbatim>\<open>persist()\<close> of what was loaded: \<^verbatim>\<open>load_config\<close>, then lines
  92-93 on \<^verbatim>\<open>self.connections\<close>, the write going well.\<close>

definition load_then_persist :: "state \<Rightarrow> py_error + state" where
  "load_then_persist s =
     and_then (load_config s) (\<lambda>s'. Inr (final (write_config Written (connections s') s')))"

subsection \<open>Example data\<close>

text \<open>The parameters of the examples: no value but strings is formatted in them, and
  their text is ASCII, where \<^verbatim>\<open>str.lower\<close> moves the capital letters only.\<close>

definition no_format :: "json \<Rightarrow> string" where
  "no_format v = []"

definition ascii_lower :: "string \<Rightarrow> string" where
  "ascii_lower s =
     map (\<lambda>c. if CHR ''A'' \<le> c \<and> c \<le> CHR ''Z'' then char_of (of_char c + (32::nat)) else c) s"

definition connection_record :: "string \<Rightarrow> string \<Rightarrow> string \<Rightarrow> string \<Rightarrow> json" where
  "connection_record t p c w =
     JObj [(''type'', JStr t), (''project'', JStr p), (''ssh_command'', JStr c),
           (''password'', JStr w)]"

definition two_connections :: json where
  "two_connections =
     JObj [(''alpha@server'', connection_record ''server'' ''alpha'' ''ssh root@alpha'' []),
           (''beta@db'', connection_record ''db'' ''beta'' ''ssh admin@beta'' ''pw'')]"

definition cached :: state where
  "cached = \<lparr>connections = two_connections, config_file = Some (JsonText two_connections)\<rparr>"

definition fresh :: state where
  "fresh = \<lparr>connections = JObj [], config_file = None\<rparr>"

text \<open>A cache whose command holds a NUL character.\<close>

definition nul_cached :: state where
  "nul_cached =
     \<lparr>connections =
        JObj [(''alpha@server'',
               connection_record ''server'' ''alpha'' (''ssh root@alpha'' @ [CHR 0x00]) [])],
      config_file = None\<rparr>"

definition text_items :: "string \<Rightarrow> json" where
  "text_items c = JArr [JObj [(''text'', JObj [(''content'', JStr c)])]]"

definition record_page :: "string \<Rightarrow> string \<Rightarrow> string \<Rightarrow> json" where
  "record_page p t c =
     JObj [(''properties'',
            JObj [(''Project'', JObj [(''title'', text_items p)]),
                  (''SSH'', JObj [(''rich_text'', text_items c)]),
                  (''Type'', JObj [(''select'', JObj [(''name'', JStr t)])]),
                  (''password'', JObj [(''rich_text'', JArr [])])])]"

definition untitled_page :: json where
  "untitled_page =
     JObj [(''properties'',
            JObj [(''Project'', JObj [(''title'', JArr [])]),
                  (''SSH'', JObj [(''rich_text'', text_items ''ssh root@gamma'')]),
                  (''Type'', JObj [(''select'', JNull)])])]"

definition null_text_page :: json where
  "null_text_page =
     JObj [(''properties'',
            JObj [(''Project'', JObj [(''title'', JArr [JObj [(''text'', JNull)]])])])]"


definition port_document :: "string \<Rightarrow> json" where
  "port_document l = JObj [(''port'', JFloat l ''22.0'')]"

definition alpha_response :: json where
  "alpha_response = JObj [(''results'', JArr [record_page ''alpha'' ''Server'' ''ssh root@alpha''])]"

definition empty_response :: json where
  "empty_response = JObj [(''results'', JArr [])]"

definition two_rows :: "row list" where
  "two_rows =
     [(1, JStr ''alpha'', JStr ''server'', Fore_CYAN @ ''ssh root@alpha'' @ Style_RESET_ALL, JStr []),
      (2, JStr ''beta'', JStr ''db'', Fore_CYAN @ ''ssh admin@beta'' @ Style_RESET_ALL, JStr ''pw'')]"




section \<open>Properties\<close>

subsection \<open>No config file\<close>

text \<open>
  C10. When the config file does not exist, \<^verbatim>\<open>load_config\<close> gives the empty Connection
  Set, and \<^verbatim>\<open>list_connections\<close> on the empty set prints "No SSH connections available."
  and returns: no prompt, no command, whatever is typed.
\<close>

theorem absent_config_lists_nothing:
  assumes "config_file s = None"
  shows "load_config s = Inr (s\<lparr>connections := JObj []\<rparr>)
       \<and> list_connections fmt (s\<lparr>connections := JObj []\<rparr>) inp =
           \<lparr>final = s\<lparr>connections := JObj []\<rparr>,
            trace = [Print (Fore_YELLOW @ ''No SSH connections available.'')],
            raised = None\<rparr>"
  using assms by (simp add: load_config_def list_connections_def)

theorem absent_config_lists_nothing_witness:
  "config_file fresh = None
   \<and> load_config fresh = Inr fresh
   \<and> trace (list_connections no_format fresh [Line ''1'', Line []]) =
       [Print (Fore_YELLOW @ ''No SSH connections available.'')]"
  using absent_config_lists_nothing [of fresh no_format "[Line ''1'', Line []]"]
  by (simp add: fresh_def)

subsection \<open>A failed request\<close>

text \<open>
  C2, as the code has it. When the request fails, that is \<^verbatim>\<open>requests.post\<close> raises (no
  connection, a timeout) or the response has a client or server error status (400 to 599,
  such as HTTP 500), \<^verbatim>\<open>refresh\<close> prints the fetch error and returns: the config file and
  the Connection Set in memory are what they were.
\<close>

theorem failed_fetch_changes_nothing:
  assumes "f = RequestFailed msg \<or> (f = Response status msg body \<and> 400 \<le> status \<and> status < 600)"
  shows "refresh fmt low f w s =
           \<lparr>final = s,
            trace = [Print (Fore_RED @ ''Error: Failed to fetch data from Notion. '' @ msg)],
            raised = None\<rparr>"
  using assms by (auto simp: refresh_def fetch_error_def raise_for_status_def)

theorem failed_fetch_changes_nothing_witness:
  "refresh no_format ascii_lower (Response 500 ''500 Server Error'' (JsonText (JObj []))) Written cached =
     \<lparr>final = cached,
      trace = [Print (Fore_RED @ ''Error: Failed to fetch data from Notion. '' @ ''500 Server Error'')],
      raised = None\<rparr>"
  using failed_fetch_changes_nothing
    [of "Response 500 ''500 Server Error'' (JsonText (JObj []))" "''500 Server Error''" 500
        "JsonText (JObj [])" no_format ascii_lower Written cached]
  by simp

text \<open>
  A status outside 200-299 is not always a failure for \<^verbatim>\<open>refresh\<close>: \<^verbatim>\<open>raise_for_status\<close>
  lets a 3xx response through. On HTTP 300 with a JSON body of no results the cache, in
  the file and in memory, is replaced by the empty set.
\<close>

theorem status_300_refresh_overwrites:
  "final (refresh no_format ascii_lower (Response 300 [] (JsonText empty_response)) Written cached)
     = \<lparr>connections = JObj [], config_file = Some (JsonText (JObj []))\<rparr>
   \<and> final (refresh no_format ascii_lower (Response 300 [] (JsonText empty_response)) Written cached)
     \<noteq> cached
   \<and> trace (refresh no_format ascii_lower (Response 300 [] (JsonText empty_response)) Written cached)
     = [Print (Fore_GREEN @ ''Data updated successfully!'')]"
  by (simp add: refresh_def raise_for_status_def remote_connections_def and_then_def
      dict_of_pairs_def dict_set_def write_config_def cached_def two_connections_def empty_response_def)

subsection \<open>A failed write\<close>

text \<open>
  C3, as the code has it. When the new set was computed and writing the config file
  raises, the failure is printed and \<^verbatim>\<open>self.connections\<close> is the set of before the
  refresh: the assignment of line 94 comes after the write, inside the \<^verbatim>\<open>try\<close>.
\<close>

theorem failed_write_keeps_memory:
  assumes "and_then (json_load j) (remote_connections fmt low) = Inr conns"
      and "\<not> raise_for_status status"
      and "w = IOErrorRaised msg left \<or> w = OtherRaised msg left"
  shows "connections (final (refresh fmt low (Response status m (JsonText j)) w s)) = connections s
       \<and> raised (refresh fmt low (Response status m (JsonText j)) w s) = None
       \<and> trace (refresh fmt low (Response status m (JsonText j)) w s) =
           [Print (Fore_RED @
              (if w = IOErrorRaised msg left
               then ''Error: Failed to write to the configuration file. ''
               else ''Unexpected error: '') @ msg)]"
  using assms by (auto simp: refresh_def write_config_def and_then_def split: sum.splits)

theorem failed_write_keeps_memory_witness:
  "connections (final (refresh no_format ascii_lower (Response 200 [] (JsonText alpha_response))
      (IOErrorRaised ''Permission denied'' None) cached)) = two_connections
   \<and> trace (refresh no_format ascii_lower (Response 200 [] (JsonText alpha_response))
      (IOErrorRaised ''Permission denied'' None) cached) =
       [Print (Fore_RED @ ''Error: Failed to write to the configuration file. Permission denied'')]"
proof -
  have n: "and_then (json_load alpha_response) (remote_connections no_format ascii_lower)
             = Inr [(''alpha@server'', connection_record ''server'' ''alpha'' ''ssh root@alpha'' [])]"
    by code_simp
  have r: "\<not> raise_for_status 200"
    by (simp add: raise_for_status_def)
  have w: "IOErrorRaised ''Permission denied'' None = IOErrorRaised ''Permission denied'' None
           \<or> IOErrorRaised ''Permission denied'' None = OtherRaised ''Permission denied'' None"
    by simp
  show ?thesis
    using failed_write_keeps_memory [OF n r w, of "[]" cached]
    by (simp add: cached_def)
qed

text \<open>
  The claim as written fails: after a failed write the set in memory is not the newly
  computed one.
\<close>

theorem failed_write_drops_new_set:
  "and_then (json_load alpha_response) (remote_connections no_format ascii_lower)
     = Inr [(''alpha@server'', connection_record ''server'' ''alpha'' ''ssh root@alpha'' [])]
   \<and> connections (final (refresh no_format ascii_lower (Response 200 [] (JsonText alpha_response))
        (IOErrorRaised ''Permission denied'' None) fresh))
     = connections fresh
   \<and> connections (final (refresh no_format ascii_lower (Response 200 [] (JsonText alpha_response))
        (IOErrorRaised ''Permission denied'' None) fresh))
     \<noteq> JObj [(''alpha@server'', connection_record ''server'' ''alpha'' ''ssh root@alpha'' [])]"
  by code_simp

subsection \<open>A response without results\<close>

text \<open>
  C7. A 2xx response whose decoded body is an object without the key \<^verbatim>\<open>results\<close>, or
  with an empty \<^verbatim>\<open>results\<close> array, is a successful refresh: the file and the set in
  memory become the empty set and success is printed.
\<close>

theorem empty_results_empty_the_cache:
  assumes "200 \<le> status" and "status < 300"
      and "json_load j = Inr (JObj d)"
      and "map_of d ''results'' = None \<or> map_of d ''results'' = Some (JArr [])"
  shows "refresh fmt low (Response status m (JsonText j)) Written s =
           \<lparr>final = s\<lparr>connections := JObj [], config_file := Some (JsonText (JObj []))\<rparr>,
            trace = [Print (Fore_GREEN @ ''Data updated successfully!'')],
            raised = None\<rparr>"
  using assms
  by (auto simp: refresh_def raise_for_status_def remote_connections_def and_then_def
      write_config_def)

theorem empty_results_empty_the_cache_witness:
  "refresh no_format ascii_lower (Response 200 [] (JsonText (JObj [(''object'', JStr ''list'')]))) Written cached =
     \<lparr>final = \<lparr>connections = JObj [], config_file = Some (JsonText (JObj []))\<rparr>,
      trace = [Print (Fore_GREEN @ ''Data updated successfully!'')],
      raised = None\<rparr>"
  using empty_results_empty_the_cache
    [of 200 "JObj [(''object'', JStr ''list'')]" "[(''object'', JStr ''list'')]" no_format
        ascii_lower "[]" cached]
  by (simp add: dict_of_pairs_def dict_set_def cached_def and_then_def)

subsection \<open>Selection and confirmation\<close>

lemma py_list_index_valid:
  assumes "1 \<le> i" and "i \<le> int (length xs)"
  shows "py_list_index xs (i - 1) = Inr (xs ! nat (i - 1))"
  using assms by (simp add: py_list_index_def Let_def)

lemma py_list_index_out_of_range:
  assumes "int (length xs) \<le> j \<or> j < - int (length xs)"
  shows "py_list_index xs j = Inl IndexError"
  using assms by (auto simp: py_list_index_def Let_def)

text \<open>
  What the index validation does reject: a line that is no integer, a number above the
  size of the set, and a number at or below minus the size. The invalid-index report is
  printed, nothing is run and the state is the same.
\<close>

lemma invalid_selection_is_reported:
  assumes "connections s = JObj items" and "items \<noteq> []"
      and "table_rows fmt 1 items = Inr rows"
      and "py_int l = None
           \<or> (py_int l = Some i \<and> (int (length items) < i \<or> i \<le> - int (length items)))"
  shows "list_connections fmt s (Line l # rest) =
           \<lparr>final = s,
            trace = [PrintTable table_headers rows, Print [], Prompt select_prompt,
                     Print (Fore_RED @ ''Invalid index. Please enter a valid number.'')],
            raised = None\<rparr>"
proof -
  have sel: "handle_selection (select_and_run fmt items (Line l # rest)) =
      ([Prompt select_prompt, Print (Fore_RED @ ''Invalid index. Please enter a valid number.'')],
       None)"
  proof (cases "py_int l")
    case None
    then show ?thesis by (simp add: select_and_run_def handle_selection_def)
  next
    case (Some k)
    then have "int (length (map snd items)) \<le> k - 1 \<or> k - 1 < - int (length (map snd items))"
      using assms(4) by auto
    then have "py_list_index (map snd items) (k - 1) = Inl IndexError"
      by (rule py_list_index_out_of_range)
    then show ?thesis using Some by (simp add: select_and_run_def handle_selection_def)
  qed
  show ?thesis
    using assms(1,2,3) sel by (simp add: list_connections_def and_then_def)
qed

text \<open>
  C9, as the code has it. After a valid selection (a number from 1 to the size of the
  set) the confirmation is asked for. When the selected record holds a command that
  \<^verbatim>\<open>os.system\<close> takes, a string without a NUL character, the command runs if and only if
  the line typed is empty; any other line prints the cancellation and runs nothing.
\<close>

theorem confirmation_decides_execution:
  assumes "connections s = JObj items"
      and "table_rows fmt 1 items = Inr rows"
      and "py_int l = Some i" and "1 \<le> i" and "i \<le> int (length items)"
      and "py_item (snd (items ! nat (i - 1))) ''project'' = Inr project"
      and "py_item (snd (items ! nat (i - 1))) ''type'' = Inr type'"
      and "py_item (snd (items ! nat (i - 1))) ''ssh_command'' = Inr (JStr cmd)"
      and "CHR 0x00 \<notin> set cmd"
  shows "list_connections fmt s (Line l # Line confirm # rest) =
           \<lparr>final = s,
            trace = [PrintTable table_headers rows, Print [], Prompt select_prompt,
                     Prompt (confirm_prompt fmt project type')]
                    @ (if confirm = []
                       then [Print (Fore_GREEN @ ''Command executing...'' @ Style_RESET_ALL),
                             Shell cmd]
                       else [Print (Fore_RED @ ''Command execution canceled.'')]),
            raised = None\<rparr>"
proof -
  have ne: "items \<noteq> []" using assms(4,5) by auto
  have idx: "py_list_index (map snd items) (i - 1) = Inr (snd (items ! nat (i - 1)))"
    using py_list_index_valid [of i "map snd items"] assms(4,5) by simp
  have run: "run_confirmed (snd (items ! nat (i - 1))) confirm =
      (if confirm = []
       then ([Print (Fore_GREEN @ ''Command executing...'' @ Style_RESET_ALL), Shell cmd], None)
       else ([Print (Fore_RED @ ''Command execution canceled.'')], None))"
    using assms(8,9) by (simp add: run_confirmed_def and_then_def)
  have conf: "confirm_and_run fmt (snd (items ! nat (i - 1))) (Line confirm # rest) =
      (Prompt (confirm_prompt fmt project type') # fst (run_confirmed (snd (items ! nat (i - 1))) confirm), None)"
    using assms(6,7) run by (simp add: confirm_and_run_def and_then_def)
  have sel: "select_and_run fmt items (Line l # Line confirm # rest) =
      (Prompt select_prompt # Prompt (confirm_prompt fmt project type')
         # fst (run_confirmed (snd (items ! nat (i - 1))) confirm), None)"
    using assms(3) idx conf by (simp add: select_and_run_def)
  show ?thesis
    using ne assms(1,2) sel run
    by (simp add: list_connections_def and_then_def handle_selection_def)
qed

theorem confirmation_decides_execution_witness:
  "list_connections no_format cached [Line ''1'', Line []] =
     \<lparr>final = cached,
      trace = [PrintTable table_headers
                 two_rows,
               Print [], Prompt select_prompt,
               Prompt (confirm_prompt no_format (JStr ''alpha'') (JStr ''server'')),
               Print (Fore_GREEN @ ''Command executing...'' @ Style_RESET_ALL),
               Shell ''ssh root@alpha''],
      raised = None\<rparr>
   \<and> list_connections no_format cached [Line ''1'', Line ''n''] =
     \<lparr>final = cached,
      trace = [PrintTable table_headers
                 two_rows,
               Print [], Prompt select_prompt,
               Prompt (confirm_prompt no_format (JStr ''alpha'') (JStr ''server'')),
               Print (Fore_RED @ ''Command execution canceled.'')],
      raised = None\<rparr>"
proof -
  let ?items = "[(''alpha@server'', connection_record ''server'' ''alpha'' ''ssh root@alpha'' []),
                 (''beta@db'', connection_record ''db'' ''beta'' ''ssh admin@beta'' ''pw'')]"
  let ?rows = two_rows
  have c: "connections cached = JObj ?items"
    by (simp add: cached_def two_connections_def)
  have r: "table_rows no_format 1 ?items = Inr ?rows"
    by (simp add: connection_record_def and_then_def format_value_def two_rows_def)
  have p: "py_int ''1'' = Some 1"
    by code_simp
  have a: "py_item (snd (?items ! nat (1 - 1))) ''project'' = Inr (JStr ''alpha'')"
          "py_item (snd (?items ! nat (1 - 1))) ''type'' = Inr (JStr ''server'')"
          "py_item (snd (?items ! nat (1 - 1))) ''ssh_command'' = Inr (JStr ''ssh root@alpha'')"
          "CHR 0x00 \<notin> set ''ssh root@alpha''"
    by (simp_all add: connection_record_def)
  have l: "(1::int) \<le> 1" "1 \<le> int (length ?items)" by simp_all
  show ?thesis
    using confirmation_decides_execution [OF c r p l a, of "[]" "[]"]
          confirmation_decides_execution [OF c r p l a, of "''n''" "[]"]
    by simp
qed

text \<open>
  Without the condition on the command the empty confirmation does not always run it:
  \<^verbatim>\<open>os.system\<close> raises \<^verbatim>\<open>ValueError\<close> on a string with a NUL character, which line 129
  catches and reports as an invalid index. "Command executing..." is printed and no
  command runs.
\<close>

theorem empty_confirmation_runs_nothing:
  "list_connections no_format nul_cached [Line ''1'', Line []] =
     \<lparr>final = nul_cached,
      trace = [PrintTable table_headers
                 [(1, JStr ''alpha'', JStr ''server'',
                   Fore_CYAN @ ''ssh root@alpha'' @ [CHR 0x00] @ Style_RESET_ALL, JStr [])],
               Print [], Prompt select_prompt,
               Prompt (confirm_prompt no_format (JStr ''alpha'') (JStr ''server'')),
               Print (Fore_GREEN @ ''Command executing...'' @ Style_RESET_ALL),
               Print (Fore_RED @ ''Invalid index. Please enter a valid number.'')],
      raised = None\<rparr>"
proof -
  have p: "py_int ''1'' = Some 1"
    by code_simp
  show ?thesis
    using p
    by (simp add: list_connections_def nul_cached_def connection_record_def
        and_then_def format_value_def select_and_run_def py_list_index_def
        confirm_and_run_def run_confirmed_def handle_selection_def)
qed

text \<open>
  C1 at the selection \<^verbatim>\<open>0\<close>: line 122 reads \<^verbatim>\<open>list(...)[index - 1]\<close>, and the index
  \<^verbatim>\<open>-1\<close> is the last element of a Python list. With two connections cached, typing
  \<^verbatim>\<open>0\<close> and confirming runs the command of the second one; no invalid-index report.
\<close>

theorem selection_zero_runs_last_connection:
  "list_connections fmt cached [Line ''0'', Line []] =
     \<lparr>final = cached,
      trace = [PrintTable table_headers
                 two_rows,
               Print [], Prompt select_prompt,
               Prompt (confirm_prompt fmt (JStr ''beta'') (JStr ''db'')),
               Print (Fore_GREEN @ ''Command executing...'' @ Style_RESET_ALL),
               Shell ''ssh admin@beta''],
      raised = None\<rparr>"
proof -
  have p: "py_int ''0'' = Some 0"
    by code_simp
  show ?thesis
    using p
    by (simp add: list_connections_def cached_def two_connections_def connection_record_def
        and_then_def format_value_def select_and_run_def py_list_index_def
        confirm_and_run_def run_confirmed_def handle_selection_def two_rows_def)
qed

subsection \<open>Dictionaries and decoding\<close>

lemma map_fst_dict_set_old: "k \<in> set (map fst d) \<Longrightarrow> map fst (dict_set d k v) = map fst d"
  by (induction d) (auto simp: dict_set_def)


lemma distinct_dict_set: "distinct (map fst d) \<Longrightarrow> distinct (map fst (dict_set d k v))"
proof (cases "k \<in> set (map fst d)")
  case True
  assume "distinct (map fst d)"
  then show ?thesis using True by (simp add: map_fst_dict_set_old)
next
  case False
  assume "distinct (map fst d)"
  then show ?thesis using False by (simp add: dict_set_def)
qed



lemma length_dict_set:
  "length (dict_set d k v) = (if k \<in> set (map fst d) then length d else Suc (length d))"
  by (simp add: dict_set_def)

lemma values_dict_set: "set (map snd (dict_set d k v)) \<subseteq> insert v (set (map snd d))"
  by (auto simp: dict_set_def)

lemma dict_set_fresh: "k \<notin> set (map fst d) \<Longrightarrow> dict_set d k v = d @ [(k, v)]"
  by (simp add: dict_set_def)

lemma foldl_ins_distinct:
  "distinct (map fst (d @ ms)) \<Longrightarrow> foldl (\<lambda>d m. dict_set d (fst m) (snd m)) d ms = d @ ms"
proof (induction ms arbitrary: d)
  case Nil
  then show ?case by simp
next
  case (Cons m ms)
  have "fst m \<notin> set (map fst d)" using Cons.prems by auto
  then have "dict_set d (fst m) (snd m) = d @ [m]" by (simp add: dict_set_fresh)
  moreover have "distinct (map fst ((d @ [m]) @ ms))" using Cons.prems by simp
  ultimately show ?case using Cons.IH [of "d @ [m]"] by simp
qed

lemma dict_of_pairs_distinct: "distinct (map fst ms) \<Longrightarrow> dict_of_pairs ms = ms"
  using foldl_ins_distinct [of "[]" ms] by (simp add: dict_of_pairs_def)


lemma foldl_ins_distinct_keys:
  "distinct (map fst d) \<Longrightarrow> distinct (map fst (foldl (\<lambda>d m. dict_set d (fst m) (snd m)) d ms))"
  by (induction ms arbitrary: d) (auto simp: distinct_dict_set)


lemma foldl_ins_values:
  "set (map snd (foldl (\<lambda>d m. dict_set d (fst m) (snd m)) d ms)) \<subseteq> set (map snd d) \<union> set (map snd ms)"
proof (induction ms arbitrary: d)
  case Nil
  then show ?case by simp
next
  case (Cons m ms)
  show ?case using Cons.IH [of "dict_set d (fst m) (snd m)"] values_dict_set [of d "fst m" "snd m"]
    by auto
qed

lemma and_then_Inr: "(and_then m f = Inr y) = (\<exists>x. m = Inr x \<and> f x = Inr y)"
  by (cases m) (simp_all add: and_then_def)

lemma collect_all_Inr:
  "(\<And>x. x \<in> set xs \<Longrightarrow> f x = Inr (g x)) \<Longrightarrow> collect (map f xs) = Inr (map g xs)"
  by (induction xs) (simp_all add: and_then_def)


lemma collect_member:
  "collect (map f xs) = Inr ys \<Longrightarrow> y \<in> set ys \<Longrightarrow> \<exists>x \<in> set xs. f x = Inr y"
  by (induction xs arbitrary: ys) (auto simp: and_then_Inr)

lemma json_load_py_value_id: "py_value j \<Longrightarrow> json_load j = Inr j"
proof (induction j rule: json_load.induct)
  case (1 n)
  then show ?case by simp
next
  case (2 l c)
  then show ?case by simp
next
  case (3 xs)
  have "collect (map json_load xs) = Inr (map (\<lambda>x. x) xs)"
    using 3 by (intro collect_all_Inr) (simp add: list_all_iff)
  then show ?case by (simp add: and_then_def)
next
  case (4 ms)
  have "collect (map (\<lambda>m. and_then (json_load (snd m)) (\<lambda>v. Inr (fst m, v))) ms)
          = Inr (map (\<lambda>m. m) ms)"
    using 4 by (intro collect_all_Inr) (simp add: list_all_iff and_then_def)
  then show ?case using 4(2) by (simp add: and_then_def dict_of_pairs_distinct)
qed simp_all

lemma py_value_json_load: "json_load j = Inr v \<Longrightarrow> py_value v"
proof (induction j arbitrary: v rule: json_load.induct)
  case (1 n)
  then show ?case by (auto split: if_splits)
next
  case (2 l c)
  then show ?case by auto
next
  case (3 xs)
  from 3(2) obtain vs where vs: "collect (map json_load xs) = Inr vs" and v: "v = JArr vs"
    by (auto simp: and_then_Inr)
  have "\<forall>y \<in> set vs. py_value y"
    using collect_member [OF vs] 3(1) by blast
  then show ?case using v by (simp add: list_all_iff)
next
  case (4 ms)
  let ?f = "\<lambda>m. and_then (json_load (snd m)) (\<lambda>v. Inr (fst m, v))"
  from 4(2) obtain ps where ps: "collect (map ?f ms) = Inr ps"
    and v: "v = JObj (dict_of_pairs ps)"
    by (auto simp: and_then_Inr)
  have a: "\<forall>y \<in> set ps. py_value (snd y)"
  proof
    fix y assume "y \<in> set ps"
    then obtain m where m: "m \<in> set ms" and y: "?f m = Inr y"
      using collect_member [OF ps] by blast
    from y obtain u where u: "json_load (snd m) = Inr u" and "y = (fst m, u)"
      by (auto simp: and_then_Inr)
    then show "py_value (snd y)" using 4(1) [OF m u] by simp
  qed
  have d: "distinct (map fst (dict_of_pairs ps))"
    using foldl_ins_distinct_keys [of "[]" ps] by (simp add: dict_of_pairs_def)
  have "set (map snd (dict_of_pairs ps)) \<subseteq> set (map snd ps)"
    using foldl_ins_values [of "[]" ps] by (simp add: dict_of_pairs_def)
  moreover have "\<forall>u \<in> set (map snd ps). py_value u"
    using a by simp
  ultimately have "\<forall>u \<in> set (map snd (dict_of_pairs ps)). py_value u"
    by blast
  then have "list_all (\<lambda>m. py_value (snd m)) (dict_of_pairs ps)"
    by (simp add: list_all_iff)
  then show ?case using d v by simp
qed auto

subsection \<open>The Connection Set of a response\<close>

lemma build_as_fold:
  "build_connections fmt low conns pages =
     and_then (page_entries fmt low pages)
       (\<lambda>es. Inr (foldl (\<lambda>d m. dict_set d (fst m) (snd m)) conns es))"
proof (induction pages arbitrary: conns)
  case Nil
  then show ?case by (simp add: and_then_def page_entries_def)
next
  case (Cons page pages)
  show ?case
  proof (cases "page_entry fmt low page")
    case (Inl e)
    then show ?thesis by (simp add: and_then_def page_entries_def)
  next
    case (Inr m)
    then show ?thesis
      using Cons.IH [of "dict_set conns (fst m) (snd m)"]
      by (cases m; cases "collect (map (page_entry fmt low) pages)")
         (simp_all add: and_then_def page_entries_def)
  qed
qed







subsection \<open>Load, then persist\<close>




text \<open>
  Nor is a number reproduced that is written otherwise than Python prints it: the file
  \<^verbatim>\<open>{"port": 22.00}\<close> comes back as \<^verbatim>\<open>{"port": 22.0}\<close>. An integer of more than 4300
  digits makes \<^verbatim>\<open>load()\<close> raise.
\<close>

lemma rounded_number_is_not_reproduced:
  "load_then_persist \<lparr>connections = JObj [], config_file = Some (JsonText (port_document ''22.00''))\<rparr> =
     Inr \<lparr>connections = port_document ''22.0'',
          config_file = Some (JsonText (port_document ''22.0''))\<rparr>"
  by code_simp

lemma long_integer_is_not_loaded:
  assumes "too_long n" and "config_file s = Some (JsonText (JObj [(''port'', JNum n)]))"
  shows "load_then_persist s = Inl ValueError"
  using assms by (simp add: load_then_persist_def load_config_def and_then_def)

subsection \<open>Memory and file after a successful refresh\<close>

lemma py_value_lookup:
  assumes "list_all (\<lambda>m. py_value (snd m)) d" and "map_of d k = Some x"
  shows "py_value x"
proof -
  have "(k, x) \<in> set d"
    using assms(2) by (rule map_of_SomeD)
  then have "py_value (snd (k, x))"
    using assms(1) unfolding list_all_iff by blast
  then show ?thesis by simp
qed

lemma py_value_get:
  assumes "py_value v" and "py_value dflt" and "py_get v k dflt = Inr x"
  shows "py_value x"
proof (cases v)
  case (JObj d)
  show ?thesis
  proof (cases "map_of d k")
    case None
    then show ?thesis using assms JObj by simp
  next
    case (Some y)
    then have "py_value y"
      using assms(1) JObj py_value_lookup [of d k y] by simp
    then show ?thesis using assms(3) JObj Some by simp
  qed
qed (use assms in simp_all)

lemma py_value_first: "py_value v \<Longrightarrow> py_first v = Inr x \<Longrightarrow> py_value x"
  by (induction v rule: py_first.induct) auto

lemma py_value_first_text_content:
  assumes "py_value p" and "first_text_content p = Inr x"
  shows "py_value x"
proof (cases "truthy p")
  case True
  then obtain item t where i: "py_first p = Inr item"
    and t: "py_get item ''text'' (JObj []) = Inr t"
    and x: "py_get t ''content'' (JStr []) = Inr x"
    using assms(2) by (auto simp: first_text_content_def and_then_Inr)
  have "py_value item"
    using assms(1) i by (rule py_value_first)
  then have "py_value t"
    using py_value_get [of item "JObj []" "''text''" t] t by simp
  then show ?thesis
    using py_value_get [of t "JStr []" "''content''" x] x by simp
next
  case False
  then show ?thesis using assms(2) by (auto simp: first_text_content_def)
qed

lemma py_value_property_of:
  assumes "py_value ps" and "py_value dflt" and "property_of ps name inner dflt = Inr x"
  shows "py_value x"
proof -
  from assms(3) obtain p where p: "py_get ps name (JObj []) = Inr p"
    and x: "py_get p inner dflt = Inr x"
    by (auto simp: property_of_def and_then_Inr)
  have "py_value p"
    using py_value_get [of ps "JObj []" name p] assms(1) p by simp
  then show ?thesis
    using assms(2) x by (rule py_value_get)
qed

lemma py_value_page_entry:
  assumes "py_value page" and "page_entry fmt low page = Inr m"
  shows "py_value (snd m)"
proof -
  from assms(2) obtain properties pp project sp ssh wp password type' where
    p: "py_get page ''properties'' (JObj []) = Inr properties"
    and pp: "property_of properties ''Project'' ''title'' (JArr []) = Inr pp"
    and project: "first_text_content pp = Inr project"
    and sp: "property_of properties ''SSH'' ''rich_text'' (JArr []) = Inr sp"
    and ssh: "first_text_content sp = Inr ssh"
    and wp: "property_of properties ''password'' ''rich_text'' (JArr []) = Inr wp"
    and password: "first_text_content wp = Inr password"
    and m: "snd m = JObj [(''type'', JStr type'), (''project'', project),
                          (''ssh_command'', ssh), (''password'', password)]"
    unfolding page_entry_def and_then_Inr by force
  have v: "py_value properties"
    using py_value_get [of page "JObj []" "''properties''" properties] assms(1) p by simp
  have e: "py_value (JArr [])"
    by simp
  have "py_value project"
    using py_value_first_text_content [OF py_value_property_of [OF v e pp] project] .
  moreover have "py_value ssh"
    using py_value_first_text_content [OF py_value_property_of [OF v e sp] ssh] .
  moreover have "py_value password"
    using py_value_first_text_content [OF py_value_property_of [OF v e wp] password] .
  ultimately show ?thesis
    using m by simp
qed

lemma py_value_page_entries:
  assumes "list_all py_value pages" and "page_entries fmt low pages = Inr es"
  shows "list_all (\<lambda>m. py_value (snd m)) es"
proof -
  have "\<forall>m \<in> set es. py_value (snd m)"
  proof
    fix m assume "m \<in> set es"
    then obtain page where "page \<in> set pages" and "page_entry fmt low page = Inr m"
      using collect_member [OF assms(2) [unfolded page_entries_def]] by blast
    then show "py_value (snd m)"
      using assms(1) py_value_page_entry [of page fmt low m] by (simp add: list_all_iff)
  qed
  then show ?thesis by (simp add: list_all_iff)
qed

lemma py_value_iter: "py_value v \<Longrightarrow> py_iter v = Inr xs \<Longrightarrow> list_all py_value xs"
  by (cases v) (auto simp: list_all_iff)

lemma py_value_remote_connections:
  assumes "py_value body" and "remote_connections fmt low body = Inr conns"
  shows "py_value (JObj conns)"
proof -
  from assms(2) obtain results pages es where
    r: "py_get body ''results'' (JArr []) = Inr results"
    and i: "py_iter results = Inr pages"
    and es: "page_entries fmt low pages = Inr es"
    and conns: "conns = foldl (\<lambda>d m. dict_set d (fst m) (snd m)) [] es"
    unfolding remote_connections_def build_as_fold and_then_Inr by force
  have "py_value results"
    using py_value_get [of body "JArr []" "''results''" results] assms(1) r by simp
  then have "list_all py_value pages"
    using i by (rule py_value_iter)
  then have "list_all (\<lambda>m. py_value (snd m)) es"
    using es by (rule py_value_page_entries)
  then have a: "\<forall>v \<in> set (map snd es). py_value v"
    by (simp add: list_all_iff)
  have "set (map snd conns) \<subseteq> set (map snd es)"
    using foldl_ins_values [of "[]" es] conns by simp
  then have "\<forall>v \<in> set (map snd conns). py_value v"
    using a by blast
  then have "list_all (\<lambda>m. py_value (snd m)) conns"
    by (simp add: list_all_iff)
  moreover have "distinct (map fst conns)"
    using foldl_ins_distinct_keys [of "[]" es] conns by simp
  ultimately show ?thesis
    by simp
qed

text \<open>
  C6. When \<^verbatim>\<open>refresh\<close> succeeds, that is it prints "Data updated successfully!", the
  document in the config file is the Connection Set held in memory, and loading the file
  again gives the same state.
\<close>

theorem successful_refresh_memory_is_file:
  assumes "trace (refresh fmt low f w s) = [Print (Fore_GREEN @ ''Data updated successfully!'')]"
  shows "config_file (final (refresh fmt low f w s))
           = Some (JsonText (connections (final (refresh fmt low f w s))))
       \<and> load_config (final (refresh fmt low f w s)) = Inr (final (refresh fmt low f w s))"
proof -
  from assms obtain status m j decoded conns where
    f: "f = Response status m (JsonText j)" and st: "\<not> raise_for_status status"
    and decoded: "json_load j = Inr decoded"
    and conns: "remote_connections fmt low decoded = Inr conns" and w: "w = Written"
    by (auto simp: refresh_def fetch_error_def decode_error_def write_config_def
        Fore_GREEN_def Fore_RED_def
        split: fetched.splits document.splits sum.splits written.splits if_splits)
  have v: "py_value (JObj conns)"
    using py_value_json_load [OF decoded] conns by (rule py_value_remote_connections)
  have r: "refresh fmt low f w s = write_config Written (JObj conns) s"
    using f st decoded conns w by (simp add: refresh_def)
  show ?thesis
    using json_load_py_value_id [OF v]
    by (simp add: r write_config_def load_config_def)
qed

theorem successful_refresh_memory_is_file_witness:
  "trace (refresh no_format ascii_lower (Response 200 [] (JsonText alpha_response)) Written cached)
     = [Print (Fore_GREEN @ ''Data updated successfully!'')]
   \<and> config_file
       (final (refresh no_format ascii_lower (Response 200 [] (JsonText alpha_response)) Written cached))
     = Some (JsonText (JObj [(''alpha@server'', connection_record ''server'' ''alpha'' ''ssh root@alpha'' [])]))
   \<and> connections
       (final (refresh no_format ascii_lower (Response 200 [] (JsonText alpha_response)) Written cached))
     = JObj [(''alpha@server'', connection_record ''server'' ''alpha'' ''ssh root@alpha'' [])]"
proof -
  have t: "trace (refresh no_format ascii_lower (Response 200 [] (JsonText alpha_response)) Written cached)
     = [Print (Fore_GREEN @ ''Data updated successfully!'')]"
    by code_simp
  have c: "connections
       (final (refresh no_format ascii_lower (Response 200 [] (JsonText alpha_response)) Written cached))
     = JObj [(''alpha@server'', connection_record ''server'' ''alpha'' ''ssh root@alpha'' [])]"
    by code_simp
  show ?thesis
    using t c successful_refresh_memory_is_file [OF t] by simp
qed

subsection \<open>Field extraction\<close>

lemma lookup_path_append:
  "lookup_path (p @ q) v = (case lookup_path p v of None \<Rightarrow> None | Some x \<Rightarrow> lookup_path q x)"
  by (induction p v rule: lookup_path.induct) (auto split: option.splits)

lemma first_text_content_shaped:
  assumes "items_shaped v"
  shows "first_text_content v = Inr (field_or_empty [First, Key ''text'', Key ''content''] v)"
proof (cases v)
  case (JArr xs)
  show ?thesis
  proof (cases xs)
    case Nil
    then show ?thesis using JArr by (simp add: first_text_content_def field_or_empty_def)
  next
    case (Cons item rest)
    then obtain d where d: "item = JObj d"
      using assms JArr by (cases item) (simp_all add: member_shaped_def)
    show ?thesis
    proof (cases "map_of d ''text''")
      case None
      then show ?thesis using JArr Cons d
        by (simp add: first_text_content_def field_or_empty_def and_then_def)
    next
      case (Some t)
      then obtain d' where "t = JObj d'"
        using assms JArr Cons d by (cases t) (simp_all add: member_shaped_def is_object_def)
      then show ?thesis using JArr Cons d Some
        by (cases "map_of d' ''content''")
           (simp_all add: first_text_content_def field_or_empty_def and_then_def)
    qed
  qed
qed (use assms in \<open>auto simp: first_text_content_def field_or_empty_def\<close>)

lemma first_text_content_unshaped:
  assumes "\<not> items_shaped v"
  shows "\<exists>e. first_text_content v = Inl e"
proof (cases v)
  case (JArr xs)
  then obtain item rest where xs: "xs = item # rest"
    using assms by (cases xs) simp_all
  show ?thesis
  proof (cases item)
    case (JObj d)
    then obtain t where t: "map_of d ''text'' = Some t" and n: "\<not> is_object t"
      using assms JArr xs by (auto simp: member_shaped_def split: option.splits)
    then show ?thesis using JArr xs JObj
      by (cases t) (simp_all add: first_text_content_def and_then_def is_object_def)
  qed (use JArr xs in \<open>simp_all add: first_text_content_def and_then_def\<close>)
next
  case (JStr s)
  then obtain c cs where "s = c # cs"
    using assms by (cases s) simp_all
  then show ?thesis using JStr by (simp add: first_text_content_def and_then_def)
qed (use assms in \<open>auto simp: first_text_content_def and_then_def\<close>)

lemma select_name_shaped:
  assumes "select_shaped v"
  shows "select_name low v = Inr (case field_or_empty [Key ''name''] v of
                                    JStr n \<Rightarrow> lower low n | _ \<Rightarrow> [])"
proof (cases v)
  case (JObj d)
  show ?thesis
  proof (cases "map_of d ''name''")
    case None
    then show ?thesis using JObj
      by (cases d) (simp_all add: select_name_def field_or_empty_def and_then_def lower_def)
  next
    case (Some n)
    then have "d \<noteq> []" by auto
    then show ?thesis using JObj Some assms
      by (cases n) (simp_all add: select_name_def field_or_empty_def and_then_def)
  qed
qed (use assms in \<open>auto simp: select_name_def field_or_empty_def lower_def\<close>)

lemma select_name_unshaped:
  assumes "\<not> select_shaped v"
  shows "\<exists>e. select_name low v = Inl e"
proof (cases v)
  case (JObj d)
  then obtain n where n: "map_of d ''name'' = Some n"
    using assms by (auto split: option.splits)
  then have "d \<noteq> []" by auto
  then show ?thesis using JObj n assms
    by (cases n) (simp_all add: select_name_def and_then_def)
qed (use assms in \<open>auto simp: select_name_def and_then_def\<close>)

lemma text_property_shaped:
  assumes "member_shaped name (member_shaped inner items_shaped) props"
  shows "and_then (property_of props name inner (JArr [])) first_text_content =
           Inr (field_or_empty [Key name, Key inner, First, Key ''text'', Key ''content''] props)"
proof -
  from assms obtain d where d: "props = JObj d"
    by (cases props) (simp_all add: member_shaped_def)
  show ?thesis
  proof (cases "map_of d name")
    case None
    then show ?thesis using d
      by (simp add: property_of_def and_then_def first_text_content_def field_or_empty_def)
  next
    case (Some p)
    then have s: "member_shaped inner items_shaped p"
      using assms d by (simp add: member_shaped_def)
    then obtain d' where d': "p = JObj d'"
      by (cases p) (simp_all add: member_shaped_def)
    show ?thesis
    proof (cases "map_of d' inner")
      case None
      then show ?thesis using d Some d'
        by (simp add: property_of_def and_then_def first_text_content_def field_or_empty_def)
    next
      case (Some x)
      then have "items_shaped x"
        using s d' by (simp add: member_shaped_def)
      then have "first_text_content x = Inr (field_or_empty [First, Key ''text'', Key ''content''] x)"
        by (rule first_text_content_shaped)
      then show ?thesis using d \<open>map_of d name = Some p\<close> d' Some
        by (simp add: property_of_def and_then_def field_or_empty_def)
    qed
  qed
qed

lemma text_property_unshaped:
  assumes "\<not> member_shaped name (member_shaped inner items_shaped) props"
  shows "\<exists>e. and_then (property_of props name inner (JArr [])) first_text_content = Inl e"
proof (cases props)
  case (JObj d)
  then obtain p where p: "map_of d name = Some p" and n: "\<not> member_shaped inner items_shaped p"
    using assms by (auto simp: member_shaped_def split: option.splits)
  show ?thesis
  proof (cases p)
    case (JObj d')
    then obtain x where x: "map_of d' inner = Some x" and "\<not> items_shaped x"
      using n by (auto simp: member_shaped_def split: option.splits)
    then obtain e where "first_text_content x = Inl e"
      using first_text_content_unshaped by blast
    then show ?thesis using \<open>props = JObj d\<close> p JObj x
      by (simp add: property_of_def and_then_def)
  qed (use \<open>props = JObj d\<close> p in \<open>simp_all add: property_of_def and_then_def\<close>)
qed (simp_all add: property_of_def and_then_def)

lemma select_property_shaped:
  assumes "member_shaped ''Type'' (member_shaped ''select'' select_shaped) props"
  shows "and_then (property_of props ''Type'' ''select'' (JObj [])) (select_name low) =
           Inr (case field_or_empty [Key ''Type'', Key ''select'', Key ''name''] props of
                  JStr n \<Rightarrow> lower low n | _ \<Rightarrow> [])"
proof -
  from assms obtain d where d: "props = JObj d"
    by (cases props) (simp_all add: member_shaped_def)
  show ?thesis
  proof (cases "map_of d ''Type''")
    case None
    then show ?thesis using d
      by (simp add: property_of_def and_then_def select_name_def field_or_empty_def lower_def)
  next
    case (Some p)
    then have s: "member_shaped ''select'' select_shaped p"
      using assms d by (simp add: member_shaped_def)
    then obtain d' where d': "p = JObj d'"
      by (cases p) (simp_all add: member_shaped_def)
    show ?thesis
    proof (cases "map_of d' ''select''")
      case None
      then show ?thesis using d Some d'
        by (simp add: property_of_def and_then_def select_name_def field_or_empty_def lower_def)
    next
      case (Some x)
      then have "select_shaped x"
        using s d' by (simp add: member_shaped_def)
      then have "select_name low x = Inr (case field_or_empty [Key ''name''] x of
                                            JStr n \<Rightarrow> lower low n | _ \<Rightarrow> [])"
        by (rule select_name_shaped)
      then show ?thesis using d \<open>map_of d ''Type'' = Some p\<close> d' Some
        by (simp add: property_of_def and_then_def field_or_empty_def)
    qed
  qed
qed

lemma select_property_unshaped:
  assumes "\<not> member_shaped ''Type'' (member_shaped ''select'' select_shaped) props"
  shows "\<exists>e. and_then (property_of props ''Type'' ''select'' (JObj [])) (select_name low) = Inl e"
proof (cases props)
  case (JObj d)
  then obtain p where p: "map_of d ''Type'' = Some p"
    and n: "\<not> member_shaped ''select'' select_shaped p"
    using assms by (auto simp: member_shaped_def split: option.splits)
  show ?thesis
  proof (cases p)
    case (JObj d')
    then obtain x where x: "map_of d' ''select'' = Some x" and "\<not> select_shaped x"
      using n by (auto simp: member_shaped_def split: option.splits)
    then obtain e where "select_name low x = Inl e"
      using select_name_unshaped by blast
    then show ?thesis using \<open>props = JObj d\<close> p JObj x
      by (simp add: property_of_def and_then_def)
  qed (use \<open>props = JObj d\<close> p in \<open>simp_all add: property_of_def and_then_def\<close>)
qed (simp_all add: property_of_def and_then_def)

text \<open>The body of the loop, field by field.\<close>

lemma page_entry_fields:
  assumes "py_get page ''properties'' (JObj []) = Inr props"
  shows "page_entry fmt low page =
     and_then (and_then (property_of props ''Project'' ''title'' (JArr [])) first_text_content)
       (\<lambda>project.
     and_then (and_then (property_of props ''SSH'' ''rich_text'' (JArr [])) first_text_content)
       (\<lambda>ssh.
     and_then (and_then (property_of props ''Type'' ''select'' (JObj [])) (select_name low))
       (\<lambda>type'.
     and_then (and_then (property_of props ''password'' ''rich_text'' (JArr [])) first_text_content)
       (\<lambda>password.
       Inr (format_value fmt project @ ''@'' @ type',
            JObj [(''type'', JStr type'), (''project'', project),
                  (''ssh_command'', ssh), (''password'', password)])))))"
  using assms by (simp add: page_entry_def and_then_def split: sum.splits)

lemma properties_lookup:
  assumes "page = JObj d"
  shows "lookup_path (Key ''properties'' # Key k # p) page =
           lookup_path (Key k # p) (case map_of d ''properties'' of Some v \<Rightarrow> v | None \<Rightarrow> JObj [])"
  using assms by (cases "map_of d ''properties''") simp_all

lemma four_steps:
  "(\<exists>e. and_then a (\<lambda>x. and_then b (\<lambda>y. and_then c (\<lambda>z. and_then d (\<lambda>u. Inr (f x y z u)))))
         = Inl e)
   \<longleftrightarrow> (\<exists>e. a = Inl e) \<or> (\<exists>e. b = Inl e) \<or> (\<exists>e. c = Inl e) \<or> (\<exists>e. d = Inl e)"
  by (cases a; cases b; cases c; cases d) (simp_all add: and_then_def)

text \<open>
  C4, as the code has it. On a record of the shape the extraction can work on (an
  object wherever \<^verbatim>\<open>.get\<close> is called; a title, rich text or select that is not empty in
  the sense of Python is an array whose first element is an object, respectively an
  object whose name is a string) the extraction raises nothing, and each of the four
  fields is the value at the end of its path, or the empty string where a property, a
  member or the first element is missing or the value is empty; the type is lower-cased.
  In particular an empty \<^verbatim>\<open>properties.Project.title\<close> gives the project \<^verbatim>\<open>""\<close>. On every
  other record the extraction raises.
\<close>

theorem shaped_record_is_extracted:
  "(page_shaped page \<longrightarrow>
      page_entry fmt low page =
        Inr (format_value fmt (field_or_empty project_path page) @ ''@'' @ type_of_page low page,
             JObj [(''type'', JStr (type_of_page low page)),
                   (''project'', field_or_empty project_path page),
                   (''ssh_command'', field_or_empty ssh_path page),
                   (''password'', field_or_empty password_path page)]))
   \<and> (\<not> page_shaped page \<longrightarrow> (\<exists>e. page_entry fmt low page = Inl e))
   \<and> (lookup_path [Key ''properties'', Key ''Project'', Key ''title''] page = Some (JArr [])
        \<longrightarrow> field_or_empty project_path page = JStr [])"
proof (intro conjI impI)
  assume "lookup_path [Key ''properties'', Key ''Project'', Key ''title''] page = Some (JArr [])"
  then show "field_or_empty project_path page = JStr []"
    using lookup_path_append [of "[Key ''properties'', Key ''Project'', Key ''title'']"
        "[First, Key ''text'', Key ''content'']" page]
    by (simp add: field_or_empty_def project_path_def)
next
  assume shaped: "page_shaped page"
  then obtain d where d: "page = JObj d"
    by (cases page) (simp_all add: page_shaped_def member_shaped_def)
  define props where "props = (case map_of d ''properties'' of Some v \<Rightarrow> v | None \<Rightarrow> JObj [])"
  have g: "py_get page ''properties'' (JObj []) = Inr props"
    using d by (simp add: props_def)
  have s: "properties_shaped props"
    using shaped d
    by (cases "map_of d ''properties''")
       (simp_all add: page_shaped_def member_shaped_def props_def properties_shaped_def)
  have project: "and_then (property_of props ''Project'' ''title'' (JArr [])) first_text_content
      = Inr (field_or_empty project_path page)"
    using s text_property_shaped [of "''Project''" "''title''" props]
      properties_lookup [OF d, of "''Project''"]
    by (simp add: properties_shaped_def props_def field_or_empty_def project_path_def)
  have ssh: "and_then (property_of props ''SSH'' ''rich_text'' (JArr [])) first_text_content
      = Inr (field_or_empty ssh_path page)"
    using s text_property_shaped [of "''SSH''" "''rich_text''" props]
      properties_lookup [OF d, of "''SSH''"]
    by (simp add: properties_shaped_def props_def field_or_empty_def ssh_path_def)
  have password: "and_then (property_of props ''password'' ''rich_text'' (JArr [])) first_text_content
      = Inr (field_or_empty password_path page)"
    using s text_property_shaped [of "''password''" "''rich_text''" props]
      properties_lookup [OF d, of "''password''"]
    by (simp add: properties_shaped_def props_def field_or_empty_def password_path_def)
  have type': "and_then (property_of props ''Type'' ''select'' (JObj [])) (select_name low)
      = Inr (type_of_page low page)"
    using s select_property_shaped [of props low]
      properties_lookup [OF d, of "''Type''"]
    by (simp add: properties_shaped_def props_def field_or_empty_def name_path_def
        type_of_page_def)
  show "page_entry fmt low page =
        Inr (format_value fmt (field_or_empty project_path page) @ ''@'' @ type_of_page low page,
             JObj [(''type'', JStr (type_of_page low page)),
                   (''project'', field_or_empty project_path page),
                   (''ssh_command'', field_or_empty ssh_path page),
                   (''password'', field_or_empty password_path page)])"
    by (simp only: page_entry_fields [OF g] project ssh password type')
       (simp add: and_then_def)
next
  assume unshaped: "\<not> page_shaped page"
  show "\<exists>e. page_entry fmt low page = Inl e"
  proof (cases page)
    case (JObj d)
    define props where "props = (case map_of d ''properties'' of Some v \<Rightarrow> v | None \<Rightarrow> JObj [])"
    have g: "py_get page ''properties'' (JObj []) = Inr props"
      using JObj by (simp add: props_def)
    have "\<not> properties_shaped props"
      using unshaped JObj
      by (cases "map_of d ''properties''")
         (simp_all add: page_shaped_def member_shaped_def props_def properties_shaped_def)
    then have "(\<exists>e. and_then (property_of props ''Project'' ''title'' (JArr [])) first_text_content = Inl e)
        \<or> (\<exists>e. and_then (property_of props ''SSH'' ''rich_text'' (JArr [])) first_text_content = Inl e)
        \<or> (\<exists>e. and_then (property_of props ''Type'' ''select'' (JObj [])) (select_name low) = Inl e)
        \<or> (\<exists>e. and_then (property_of props ''password'' ''rich_text'' (JArr [])) first_text_content = Inl e)"
      using text_property_unshaped [of "''Project''" "''title''" props]
        text_property_unshaped [of "''SSH''" "''rich_text''" props]
        text_property_unshaped [of "''password''" "''rich_text''" props]
        select_property_unshaped [of props low]
      unfolding properties_shaped_def by blast
    then show ?thesis
      unfolding page_entry_fields [OF g] four_steps .
  qed (simp_all add: page_entry_def and_then_def)
qed

theorem shaped_record_is_extracted_witness:
  "page_shaped untitled_page
   \<and> lookup_path [Key ''properties'', Key ''Project'', Key ''title''] untitled_page = Some (JArr [])
   \<and> page_entry no_format ascii_lower untitled_page =
       Inr (''@'', JObj [(''type'', JStr []), (''project'', JStr []),
                        (''ssh_command'', JStr ''ssh root@gamma''), (''password'', JStr [])])
   \<and> \<not> page_shaped null_text_page
   \<and> (\<exists>e. page_entry no_format ascii_lower null_text_page = Inl e)"
proof -
  have s: "page_shaped untitled_page"
    by code_simp
  have l: "lookup_path [Key ''properties'', Key ''Project'', Key ''title''] untitled_page = Some (JArr [])"
    by code_simp
  have f: "field_or_empty project_path untitled_page = JStr []"
    "field_or_empty ssh_path untitled_page = JStr ''ssh root@gamma''"
    "field_or_empty password_path untitled_page = JStr []"
    "type_of_page ascii_lower untitled_page = []"
    by code_simp+
  have n: "\<not> page_shaped null_text_page"
    by code_simp
  show ?thesis
    using s l n shaped_record_is_extracted [of untitled_page no_format ascii_lower]
      shaped_record_is_extracted [of null_text_page no_format ascii_lower]
    by (simp add: f format_value_def)
qed

text \<open>
  Not every record is extracted without an exception: a member that is present but
  \<^verbatim>\<open>null\<close> where \<^verbatim>\<open>.get\<close> is called on it (here the \<^verbatim>\<open>text\<close> of the first title item)
  makes \<^verbatim>\<open>.get\<close> raise \<^verbatim>\<open>AttributeError\<close>, which \<^verbatim>\<open>refresh\<close> does not catch.
\<close>

theorem null_text_raises:
  "page_entry no_format ascii_lower null_text_page = Inl AttributeError"
  by code_simp

end
